theory Spec2Isabelle
  imports Complex_Main "HOL-Library.Log_Nat"
begin

section \<open>Free-fall simulator with PID control (sim.py)\<close>

text \<open>
  A shallow embedding of the classes \<open>Body\<close>, \<open>Controller\<close>, \<open>Simulator\<close> and of the
  function \<open>net_accel\<close> of \<^verbatim>\<open>src/sim.py\<close>.

  Numbers. Python's \<open>int\<close> and \<open>float\<close> values are modelled by \<^typ>\<open>real\<close> with exact
  arithmetic (the counter \<open>step_count\<close> by \<^typ>\<open>int\<close>). Rounding, overflow to infinity,
  \<open>nan\<close> and the \<open>OverflowError\<close> of \<open>**\<close> are therefore outside the model: every
  statement below is about the arithmetic the program text denotes, not about IEEE
  doubles.

  Sequences. Python lists and tuples are HOL lists. An index outside the list raises
  \<open>IndexError\<close> in Python; the model returns \<open>Inl IndexError\<close> there.

  Objects. The methods mutate \<open>self\<close>; the model passes the object in and returns the
  updated one. A \<open>Controller\<close> keeps a reference to the \<open>Body\<close> that owns it; the model
  stores the controller's constants in the body and gives the body to the controller's
  methods.
\<close>

subsection \<open>Errors\<close>

datatype py_error =
  IndexError | ZeroDivisionError | AttributeError | TypeError | OverflowError | ValueError

definition bind_err :: "py_error + 'a \<Rightarrow> ('a \<Rightarrow> py_error + 'b) \<Rightarrow> py_error + 'b" where
  "bind_err m f = (case m of Inl e \<Rightarrow> Inl e | Inr x \<Rightarrow> f x)"

subsection \<open>Data\<close>

text \<open>
  The fields \<open>p\<close>, \<open>i\<close>, \<open>d\<close> of \<open>Controller\<close> are called \<open>pid_p\<close>, \<open>pid_i\<close>, \<open>pid_d\<close>
  here, so that one-letter variables stay free.
\<close>

record controller =
  force_lim :: real
  angle_force_lim :: real
  pid_p :: real
  pid_i :: real
  pid_d :: real
  ang_p :: real
  ang_i :: real
  ang_d :: real

record body =
  mass :: real
  radius :: real
  drag :: "real list"
  target :: "real list"
  target_vel :: "real list"
  target_angle_vel :: real
  controller :: controller
  position :: "real list"
  velocity :: "real list"
  angle :: real
  angle_vel :: real
  pos_error :: "real list"
  vel_error :: "real list"
  ang_error :: real
  ang_vel_error :: real
  xy_force :: "real list"
  angle_force :: real

text \<open>
  The recorded series \<open>angle\<close>, \<open>angle_vel\<close> and \<open>angle_accel\<close> of \<open>Simulator\<close> carry
  the prefix \<open>sim_\<close>, since \<open>Body\<close> has fields of the same names.
\<close>

record simulator =
  debug :: bool
  body :: body
  time_step :: real
  step_count :: int
  wind :: "real list"
  time :: "real list"
  x_pos :: "real list"
  y_pos :: "real list"
  z_pos :: "real list"
  x_vel :: "real list"
  y_vel :: "real list"
  z_vel :: "real list"
  x_accel :: "real list"
  y_accel :: "real list"
  z_accel :: "real list"
  sim_angle :: "real list"
  sim_angle_vel :: "real list"
  sim_angle_accel :: "real list"

subsection \<open>Constructors\<close>

definition Controller_init :: controller where
  "Controller_init =
     \<lparr>force_lim = 50, angle_force_lim = 10,
      pid_p = 15, pid_i = 15 / 100, pid_d = 5,
      ang_p = 2, ang_i = 1 / 1000, ang_d = 2 / 10\<rparr>"

definition Body_init ::
  "real \<Rightarrow> real \<Rightarrow> real list \<Rightarrow> real list \<Rightarrow> real \<Rightarrow> real \<Rightarrow> real list \<Rightarrow> real list \<Rightarrow>
   real list \<Rightarrow> real \<Rightarrow> body" where
  "Body_init mass0 radius0 position0 velocity0 angle0 angle_vel0 drag0 target0
      xy_force0 angle_force0 =
     \<lparr>mass = mass0, radius = radius0, drag = drag0, target = target0,
      target_vel = [0, 0], target_angle_vel = 0,
      controller = Controller_init,
      position = position0, velocity = velocity0,
      angle = angle0, angle_vel = angle_vel0,
      pos_error = [0, 0], vel_error = [0, 0], ang_error = 0, ang_vel_error = 0,
      xy_force = xy_force0, angle_force = angle_force0\<rparr>"

text \<open>\<open>Body()\<close>, every parameter at its default.\<close>

definition Body_default :: body where
  "Body_default = Body_init 1 (5 / 100) [0, 0, 122] [0, 0, 0] 0 0 [0, 0, 0] [0, 0] [0, 0] 0"

definition Simulator_init :: "body \<Rightarrow> real list \<Rightarrow> real \<Rightarrow> bool \<Rightarrow> simulator" where
  "Simulator_init body0 wind_accel time_step0 debug0 =
     \<lparr>debug = debug0, body = body0, time_step = time_step0, step_count = 0,
      wind = wind_accel, time = [],
      x_pos = [], y_pos = [], z_pos = [],
      x_vel = [], y_vel = [], z_vel = [],
      x_accel = [], y_accel = [], z_accel = [],
      sim_angle = [], sim_angle_vel = [], sim_angle_accel = []\<rparr>"

subsection \<open>Body.step\<close>

text \<open>Python's \<open>x % y\<close> on numbers: the result has the sign of \<open>y\<close>.\<close>

definition py_mod :: "real \<Rightarrow> real \<Rightarrow> real" where
  "py_mod x y = x - y * of_int \<lfloor>x / y\<rfloor>"

text \<open>
  One round of the loop \<open>for i in range(3)\<close>: the velocity is written first and the
  position update reads it back.
\<close>

definition step_axis :: "body \<Rightarrow> real list \<Rightarrow> real \<Rightarrow> nat \<Rightarrow> py_error + body" where
  "step_axis b net_acc dt k =
     (if k < length (velocity b) \<and> k < length net_acc then
        let b1 = b\<lparr>velocity := (velocity b)[k := velocity b ! k + net_acc ! k * dt]\<rparr>
        in if k < length (position b1) then
             Inr (b1\<lparr>position := (position b1)[k := position b1 ! k + velocity b1 ! k * dt]\<rparr>)
           else Inl IndexError
      else Inl IndexError)"

fun step_axes :: "body \<Rightarrow> real list \<Rightarrow> real \<Rightarrow> nat list \<Rightarrow> py_error + body" where
  "step_axes b net_acc dt [] = Inr b"
| "step_axes b net_acc dt (k # ks) =
     (case step_axis b net_acc dt k of
        Inl e \<Rightarrow> Inl e
      | Inr b' \<Rightarrow> step_axes b' net_acc dt ks)"

definition step :: "body \<Rightarrow> real list \<Rightarrow> real \<Rightarrow> py_error + body" where
  "step b net_acc dt =
     bind_err (step_axes b net_acc dt [0, 1, 2]) (\<lambda>b.
       if 3 < length net_acc then
         let b = b\<lparr>angle_vel := angle_vel b + net_acc ! 3 * dt\<rparr>;
             b = b\<lparr>angle := angle b + angle_vel b * dt\<rparr>;
             b = b\<lparr>angle := py_mod (angle b) 360\<rparr>
         in Inr (if angle b < 0 then b\<lparr>angle := angle b + 360\<rparr> else b)
       else Inl IndexError)"

text \<open>The default of the parameter \<open>time_step\<close> of \<open>Body.step\<close>.\<close>

definition step_default_time_step :: real where
  "step_default_time_step = 1 / 100"

subsection \<open>Error updates\<close>

definition update_pos_error :: "body \<Rightarrow> body" where
  "update_pos_error b =
     b\<lparr>pos_error := map (\<lambda>(curr, tgt). curr - tgt) (zip (position b) (target b))\<rparr>"

definition update_vel_error :: "body \<Rightarrow> body" where
  "update_vel_error b =
     b\<lparr>vel_error := map (\<lambda>(vel, tgt). vel - tgt) (zip (velocity b) (target_vel b))\<rparr>"

definition update_angle_error :: "body \<Rightarrow> body" where
  "update_angle_error b =
     (let b = b\<lparr>ang_error := angle b\<rparr>
      in if ang_error b > 180 then b\<lparr>ang_error := ang_error b - 360\<rparr> else b)"

definition update_ang_vel_error :: "body \<Rightarrow> body" where
  "update_ang_vel_error b = b\<lparr>ang_vel_error := angle_vel b - target_angle_vel b\<rparr>"

subsection \<open>Status reports\<close>

text \<open>
  The format specification \<open>0.2f\<close>: fixed notation with the given number of decimals,
  rounded half to even on the exact value, and a minus sign for every negative value.
\<close>

fun dec_digits :: "nat \<Rightarrow> string" where
  "dec_digits n =
     (if n < 10 then [''0123456789'' ! n]
      else dec_digits (n div 10) @ [''0123456789'' ! (n mod 10)])"

definition round_half_even :: "real \<Rightarrow> int" where
  "round_half_even y =
     (let f = \<lfloor>y\<rfloor>; r = y - of_int f
      in if r < 1 / 2 then f else if 1 / 2 < r then f + 1
         else if even f then f else f + 1)"

definition fixed :: "nat \<Rightarrow> real \<Rightarrow> string" where
  "fixed decimals x =
     (let n = nat (round_half_even (\<bar>x\<bar> * 10 ^ decimals));
          frac = dec_digits (n mod 10 ^ decimals)
      in (if x < 0 then ''-'' else '''') @ dec_digits (n div 10 ^ decimals) @
         (if decimals = 0 then ''''
          else ''.'' @ replicate (decimals - length frac) (CHR ''0'') @ frac))"

text \<open>
  What a replacement field formats: a number, or a list. \<open>list.__format__\<close> raises
  \<open>TypeError\<close> for every format specification that is not empty.
\<close>

datatype fmt_arg = Num real | Seq "real list"

fun format_f :: "nat \<Rightarrow> fmt_arg \<Rightarrow> py_error + string" where
  "format_f decimals (Num x) = Inr (fixed decimals x)"
| "format_f decimals (Seq xs) = Inl TypeError"

definition pos_report :: "body \<Rightarrow> py_error + string" where
  "pos_report b =
     (if length (position b) < 3 then Inl IndexError
      else
        bind_err (format_f 2 (Num (position b ! 0))) (\<lambda>s0.
        bind_err (format_f 2 (Num (position b ! 1))) (\<lambda>s1.
        bind_err (format_f 2 (Num (position b ! 2))) (\<lambda>s2.
          Inr (''pos('' @ s0 @ '', '' @ s1 @ '', '' @ s2 @ '')'')))))"

definition vel_report :: "body \<Rightarrow> py_error + string" where
  "vel_report b =
     (if length (velocity b) < 3 then Inl IndexError
      else
        bind_err (format_f 2 (Num (velocity b ! 0))) (\<lambda>s0.
        bind_err (format_f 2 (Num (velocity b ! 1))) (\<lambda>s1.
        bind_err (format_f 2 (Num (velocity b ! 2))) (\<lambda>s2.
          Inr (''vel('' @ s0 @ '', '' @ s1 @ '', '' @ s2 @ '')'')))))"

definition ang_report :: "body \<Rightarrow> py_error + string" where
  "ang_report b =
     bind_err (format_f 2 (Num (angle b))) (\<lambda>s. Inr (''angle('' @ s @ '')''))"

text \<open>
  \<open>ang_vel_report\<close> reads \<open>self.ang_vel\<close>. No method of \<open>Body\<close> assigns an attribute of
  that name (the angular velocity is \<open>self.angle_vel\<close>), so the read raises.
\<close>

definition ang_vel_report :: "body \<Rightarrow> py_error + string" where
  "ang_vel_report b = Inl AttributeError"

definition pos_error_report :: "body \<Rightarrow> py_error + string" where
  "pos_error_report b =
     (if length (pos_error b) < 2 then Inl IndexError
      else
        bind_err (format_f 2 (Num (pos_error b ! 0))) (\<lambda>s0.
        bind_err (format_f 2 (Num (pos_error b ! 1))) (\<lambda>s1.
          Inr (''pos_error('' @ s0 @ '', '' @ s1 @ '')''))))"

text \<open>\<open>vel_error_report\<close> formats the whole list \<open>self.vel_error\<close>.\<close>

definition vel_error_report :: "body \<Rightarrow> py_error + string" where
  "vel_error_report b =
     bind_err (format_f 2 (Seq (vel_error b))) (\<lambda>s. Inr (''vel_error('' @ s @ '')''))"

definition ang_error_report :: "body \<Rightarrow> py_error + string" where
  "ang_error_report b =
     bind_err (format_f 2 (Num (ang_error b))) (\<lambda>s. Inr (''ang_error('' @ s @ '')''))"

subsection \<open>Controller\<close>

definition correct_xy :: "body \<Rightarrow> real \<Rightarrow> real \<Rightarrow> py_error + body" where
  "correct_xy b integral_x integral_y =
     (let c = controller b
      in if length (pos_error b) < 2 \<or> length (velocity b) < 2 then Inl IndexError
         else
           let force_x = pos_error b ! 0 * - pid_p c;
               force_x = force_x + velocity b ! 0 * - pid_d c;
               force_x = force_x + integral_x * - pid_i c;
               force_y = pos_error b ! 1 * - pid_p c;
               force_y = force_y + velocity b ! 1 * - pid_d c;
               force_y = force_y + integral_y * - pid_i c;
               force_x = (if force_x > force_lim c then force_lim c
                          else if force_x < - force_lim c then - force_lim c
                          else force_x);
               force_y = (if force_y > force_lim c then force_lim c
                          else if force_y < - force_lim c then - force_lim c
                          else force_y)
           in Inr (b\<lparr>xy_force := [force_x, force_y]\<rparr>))"

definition correct_angle :: "body \<Rightarrow> real \<Rightarrow> body" where
  "correct_angle b integral_ang =
     (let c = controller b;
          ang_force = ang_error b * - ang_p c;
          ang_force = ang_force + ang_vel_error b * - ang_d c;
          ang_force = ang_force + integral_ang * - ang_i c;
          ang_force = (if ang_force > angle_force_lim c then angle_force_lim c
                       else if ang_force < - angle_force_lim c then - angle_force_lim c
                       else ang_force)
      in b\<lparr>angle_force := ang_force\<rparr>)"

subsection \<open>Force model\<close>

definition net_accel :: "body \<Rightarrow> simulator \<Rightarrow> py_error + real list" where
  "net_accel b sim =
     (let gravity = - 981 / 100;
          body_moi = 1 / 2 * mass b * (radius b)\<^sup>2;
          convert = 180 / pi
      in if length (drag b) < 3 \<or> length (velocity b) < 3 \<or> length (wind sim) < 2 \<or>
            length (xy_force b) < 2
         then Inl IndexError
         else
           let x_accel = drag b ! 0 * (velocity b ! 0)\<^sup>2 + wind sim ! 0 +
                 xy_force b ! 0 * cos (angle b / convert) +
                 xy_force b ! 1 * sin (angle b / convert);
               y_accel = drag b ! 1 * (velocity b ! 1)\<^sup>2 + wind sim ! 1 +
                 xy_force b ! 1 * cos (angle b / convert) +
                 xy_force b ! 0 * sin (angle b / convert);
               z_accel = gravity * mass b + drag b ! 2 * (velocity b ! 2)\<^sup>2;
               torque = angle_force b
           in if mass b = 0 \<or> body_moi = 0 then Inl ZeroDivisionError
              else Inr [x_accel / mass b, y_accel / mass b, z_accel / mass b,
                        torque / body_moi])"

subsection \<open>Simulator.run\<close>

text \<open>
  The state of the loop: the simulator and the local variables \<open>integral_x\<close>,
  \<open>integral_y\<close>, \<open>integral_ang\<close>.
\<close>

type_synonym run_state = "simulator \<times> real \<times> real \<times> real"

text \<open>The block \<open># Sets integrals for PID loops\<close>.\<close>

definition set_integrals :: "body \<Rightarrow> real \<times> real \<times> real \<Rightarrow> py_error + real \<times> real \<times> real" where
  "set_integrals b ints =
     (case ints of (integral_x, integral_y, integral_ang) \<Rightarrow>
        if length (pos_error b) < 2 then Inl IndexError
        else
          let integral_x = (if pos_error b ! 0 < 1 then integral_x + pos_error b ! 0 else 0);
              integral_y = (if pos_error b ! 1 < 1 then integral_y + pos_error b ! 1 else 0);
              integral_ang = (if ang_error b < 1 then integral_ang + ang_error b else 0)
          in Inr (integral_x, integral_y, integral_ang))"

text \<open>The block \<open># append data to lists for plotting\<close>.\<close>

definition append_data :: "simulator \<Rightarrow> real list \<Rightarrow> py_error + simulator" where
  "append_data sim body_accel =
     (let b = body sim
      in if length (position b) < 3 \<or> length (velocity b) < 3 \<or> length body_accel < 4
         then Inl IndexError
         else Inr (sim\<lparr>
           time := time sim @ [time_step sim * of_int (step_count sim)],
           x_pos := x_pos sim @ [position b ! 0],
           y_pos := y_pos sim @ [position b ! 1],
           z_pos := z_pos sim @ [position b ! 2],
           x_vel := x_vel sim @ [velocity b ! 0],
           y_vel := y_vel sim @ [velocity b ! 1],
           z_vel := z_vel sim @ [velocity b ! 2],
           x_accel := x_accel sim @ [body_accel ! 0],
           y_accel := y_accel sim @ [body_accel ! 1],
           z_accel := z_accel sim @ [body_accel ! 2],
           sim_angle := sim_angle sim @ [angle b],
           sim_angle_vel := sim_angle_vel sim @ [angle_vel b],
           sim_angle_accel := sim_angle_accel sim @ [body_accel ! 3]\<rparr>))"

text \<open>The line printed under \<open>if self.debug\<close>.\<close>

definition debug_line :: "simulator \<Rightarrow> py_error + string" where
  "debug_line sim =
     bind_err (format_f 3 (Num (of_int (step_count sim) * time_step sim))) (\<lambda>t.
     bind_err (pos_report (body sim)) (\<lambda>r1.
     bind_err (vel_report (body sim)) (\<lambda>r2.
     bind_err (ang_report (body sim)) (\<lambda>r3.
     bind_err (pos_error_report (body sim)) (\<lambda>r4.
     bind_err (ang_error_report (body sim)) (\<lambda>r5.
       Inr (''time: '' @ t @ '', '' @ r1 @ '', '' @ r2 @ '', '' @ r3 @ '', '' @ r4 @
            '', '' @ r5)))))))"

text \<open>
  The body of the \<open>while\<close> loop. \<open>Body.step\<close> is called with one argument, so its
  \<open>time_step\<close> is the default. The text printed in debug mode is not kept; an exception
  raised while building it is.
\<close>

definition run_iter :: "run_state \<Rightarrow> py_error + run_state" where
  "run_iter st =
     (case st of (sim, integral_x, integral_y, integral_ang) \<Rightarrow>
        bind_err (net_accel (body sim) sim) (\<lambda>body_accel.
        bind_err (step (body sim) body_accel step_default_time_step) (\<lambda>b.
          let sim = sim\<lparr>body := b\<rparr>;
              sim = sim\<lparr>step_count := step_count sim + 1\<rparr>;
              sim = sim\<lparr>body := update_pos_error (body sim)\<rparr>;
              sim = sim\<lparr>body := update_vel_error (body sim)\<rparr>;
              sim = sim\<lparr>body := update_angle_error (body sim)\<rparr>;
              sim = sim\<lparr>body := update_ang_vel_error (body sim)\<rparr>
          in
          bind_err
            (if step_count sim mod 1 = 0 then
               correct_xy (correct_angle (body sim) integral_ang) integral_x integral_y
             else Inr (body sim)) (\<lambda>b.
          let sim = sim\<lparr>body := b\<rparr>
          in
          bind_err (set_integrals (body sim) (integral_x, integral_y, integral_ang)) (\<lambda>ints.
          bind_err (append_data sim body_accel) (\<lambda>sim.
          bind_err (if debug sim then debug_line sim else Inr []) (\<lambda>_.
            Inr (sim, ints))))))))"

text \<open>
  The loop \<open>while self.body.position[2] > 0\<close>. It need not end; \<open>None\<close> is the run
  that never returns.
\<close>

partial_function (option) run_loop :: "run_state \<Rightarrow> (py_error + run_state) option" where
  "run_loop st =
     (if length (position (body (fst st))) < 3 then Some (Inl IndexError)
      else if position (body (fst st)) ! 2 > 0 then
        (case run_iter st of
           Inl e \<Rightarrow> Some (Inl e)
         | Inr st' \<Rightarrow> run_loop st')
      else Some (Inr st))"

definition run :: "simulator \<Rightarrow> (py_error + simulator) option" where
  "run sim =
     (case run_loop (sim, 0, 0, 0) of
        None \<Rightarrow> None
      | Some (Inl e) \<Rightarrow> Some (Inl e)
      | Some (Inr st) \<Rightarrow> Some (Inr (fst st)))"

subsection \<open>Reference definitions for the properties\<close>

text \<open>
  The integrator policy in the words of the specification (section 4.4, step 5): add
  the error when it is below 1, reset to 0 otherwise; and the trace of one accumulator
  over a sequence of errors. The code has no function of its own for it;
  \<open>set_integrals\<close> above is the code.
\<close>

definition integral_policy :: "real \<Rightarrow> real \<Rightarrow> real" where
  "integral_policy acc err = (if err < 1 then acc + err else 0)"

fun integral_trace :: "real \<Rightarrow> real list \<Rightarrow> real list" where
  "integral_trace acc [] = []"
| "integral_trace acc (err # errs) =
     integral_policy acc err # integral_trace (integral_policy acc err) errs"



section \<open>Properties\<close>

lemma bind_err_simps [simp]:
  "bind_err (Inl e) f = Inl e"
  "bind_err (Inr x) f = f x"
  by (simp_all add: bind_err_def)

subsection \<open>Body.step\<close>

lemma py_mod_range: "0 < y \<Longrightarrow> 0 \<le> py_mod x y \<and> py_mod x y < y"
proof -
  assume y: "0 < y"
  have a: "of_int \<lfloor>x / y\<rfloor> \<le> x / y" by simp
  have b: "x / y < of_int \<lfloor>x / y\<rfloor> + 1" by linarith
  from a y have "of_int \<lfloor>x / y\<rfloor> * y \<le> x"
    by (simp only: pos_le_divide_eq)
  moreover from b y have "x < (of_int \<lfloor>x / y\<rfloor> + 1) * y"
    by (simp only: pos_divide_less_eq)
  ultimately show ?thesis by (simp add: py_mod_def algebra_simps)
qed

lemma step_axis_ok:
  "k < length (velocity b) \<Longrightarrow> k < length (position b) \<Longrightarrow> k < length acc \<Longrightarrow>
   step_axis b acc dt k =
     Inr (b\<lparr>velocity := (velocity b)[k := velocity b ! k + acc ! k * dt],
            position := (position b)[k := position b ! k + (velocity b ! k + acc ! k * dt) * dt]\<rparr>)"
  by (simp add: step_axis_def Let_def)

text \<open>The state after \<open>Body.step\<close>, when no index is out of range.\<close>

lemma step_ok:
  assumes "3 \<le> length (velocity b)" "3 \<le> length (position b)" "4 \<le> length acc"
  shows "step b acc dt =
     Inr (b\<lparr>velocity := (velocity b)[0 := velocity b ! 0 + acc ! 0 * dt,
                                       1 := velocity b ! 1 + acc ! 1 * dt,
                                       2 := velocity b ! 2 + acc ! 2 * dt],
            position := (position b)[0 := position b ! 0 + (velocity b ! 0 + acc ! 0 * dt) * dt,
                                       1 := position b ! 1 + (velocity b ! 1 + acc ! 1 * dt) * dt,
                                       2 := position b ! 2 + (velocity b ! 2 + acc ! 2 * dt) * dt],
            angle_vel := angle_vel b + acc ! 3 * dt,
            angle := py_mod (angle b + (angle_vel b + acc ! 3 * dt) * dt) 360\<rparr>)"
proof -
  have nn: "\<not> py_mod x 360 < 0" for x using py_mod_range [of 360 x] by simp
  from assms have l: "0 < length (velocity b)" "1 < length (velocity b)" "2 < length (velocity b)"
    "0 < length (position b)" "1 < length (position b)" "2 < length (position b)"
    "0 < length acc" "1 < length acc" "2 < length acc" "3 < length acc"
    by auto
  define b0 where "b0 = b\<lparr>velocity := (velocity b)[0 := velocity b ! 0 + acc ! 0 * dt],
            position := (position b)[0 := position b ! 0 + (velocity b ! 0 + acc ! 0 * dt) * dt]\<rparr>"
  define b1 where "b1 = b0\<lparr>velocity := (velocity b0)[1 := velocity b0 ! 1 + acc ! 1 * dt],
            position := (position b0)[1 := position b0 ! 1 + (velocity b0 ! 1 + acc ! 1 * dt) * dt]\<rparr>"
  define b2 where "b2 = b1\<lparr>velocity := (velocity b1)[2 := velocity b1 ! 2 + acc ! 2 * dt],
            position := (position b1)[2 := position b1 ! 2 + (velocity b1 ! 2 + acc ! 2 * dt) * dt]\<rparr>"
  have s0: "step_axis b acc dt 0 = Inr b0"
    unfolding b0_def using l by (intro step_axis_ok)
  have s1: "step_axis b0 acc dt 1 = Inr b1"
    unfolding b1_def using l by (intro step_axis_ok) (simp_all add: b0_def)
  have s2: "step_axis b1 acc dt 2 = Inr b2"
    unfolding b2_def using l by (intro step_axis_ok) (simp_all add: b0_def b1_def)
  have "step_axes b acc dt [0, 1, 2] = Inr b2"
    using s1 by (simp add: s0 s2)
  then show ?thesis using l
    by (simp add: step_def Let_def nn b2_def b1_def b0_def)
qed

subsection \<open>Force model\<close>

lemma net_accel_value:
  assumes "3 \<le> length (drag b)" "3 \<le> length (velocity b)" "2 \<le> length (wind sim)"
    "2 \<le> length (xy_force b)" "mass b \<noteq> 0" "radius b \<noteq> 0"
  shows "net_accel b sim = Inr
     [(drag b ! 0 * (velocity b ! 0)\<^sup>2 + wind sim ! 0 +
         xy_force b ! 0 * cos (angle b * pi / 180) + xy_force b ! 1 * sin (angle b * pi / 180)) / mass b,
      (drag b ! 1 * (velocity b ! 1)\<^sup>2 + wind sim ! 1 +
         xy_force b ! 1 * cos (angle b * pi / 180) + xy_force b ! 0 * sin (angle b * pi / 180)) / mass b,
      (- (981 / 100) * mass b + drag b ! 2 * (velocity b ! 2)\<^sup>2) / mass b,
      angle_force b / (mass b * (radius b)\<^sup>2 / 2)]"
  using assms by (simp add: net_accel_def Let_def)

subsection \<open>One iteration of the loop\<close>

lemma run_iter_Inr:
  assumes "run_iter (sim, ix, iy, ia) = Inr (sim', ints')"
  shows "\<exists>acc b1 b2. net_accel (body sim) sim = Inr acc \<and>
     step (body sim) acc step_default_time_step = Inr b1 \<and>
     correct_xy (correct_angle (update_ang_vel_error (update_angle_error
        (update_vel_error (update_pos_error b1)))) ia) ix iy = Inr b2 \<and>
     set_integrals b2 (ix, iy, ia) = Inr ints' \<and>
     append_data (sim\<lparr>step_count := step_count sim + 1, body := b2\<rparr>) acc = Inr sim'"
  using assms
  by (simp add: run_iter_def bind_err_def Let_def split: sum.splits if_splits)

lemma append_data_body: "append_data sim acc = Inr sim' \<Longrightarrow> body sim' = body sim"
  by (auto simp: append_data_def Let_def split: if_splits)

lemma set_integrals_Inr:
  "set_integrals b (ix, iy, ia) = Inr (ix', iy', ia') \<Longrightarrow>
     ix' = (if pos_error b ! 0 < 1 then ix + pos_error b ! 0 else 0) \<and>
     iy' = (if pos_error b ! 1 < 1 then iy + pos_error b ! 1 else 0) \<and>
     ia' = (if ang_error b < 1 then ia + ang_error b else 0)"
  by (simp add: set_integrals_def Let_def split: if_splits)

lemma correct_xy_ok:
  assumes "2 \<le> length (pos_error b)" "2 \<le> length (velocity b)"
  shows "\<exists>fx fy. correct_xy b ix iy = Inr (b\<lparr>xy_force := [fx, fy]\<rparr>)"
proof -
  from assms have g: "\<not> (length (pos_error b) < 2 \<or> length (velocity b) < 2)"
    by simp
  show ?thesis
    unfolding correct_xy_def Let_def
    by (simp only: g if_False) blast
qed

lemma correct_angle_ok:
  "\<exists>f. correct_angle b ia = b\<lparr>angle_force := f\<rparr>"
  unfolding correct_angle_def Let_def by blast

lemma update_errors_ok:
  "update_ang_vel_error (update_angle_error (update_vel_error (update_pos_error b)))
     = b\<lparr>pos_error := map (\<lambda>(curr, tgt). curr - tgt) (zip (position b) (target b)),
          vel_error := map (\<lambda>(vel, tgt). vel - tgt) (zip (velocity b) (target_vel b)),
          ang_error := (if 180 < angle b then angle b - 360 else angle b),
          ang_vel_error := angle_vel b - target_angle_vel b\<rparr>"
  by (simp add: update_ang_vel_error_def update_angle_error_def update_vel_error_def
      update_pos_error_def Let_def)

lemma set_integrals_ok:
  "2 \<le> length (pos_error b) \<Longrightarrow> \<exists>ints'. set_integrals b ints = Inr ints'"
  by (cases ints) (simp add: set_integrals_def Let_def)

lemma reports_ok:
  assumes "3 \<le> length (position b)" "3 \<le> length (velocity b)" "2 \<le> length (pos_error b)"
  shows "\<exists>r1 r2 r3 r4 r5. pos_report b = Inr r1 \<and> vel_report b = Inr r2 \<and>
     ang_report b = Inr r3 \<and> pos_error_report b = Inr r4 \<and> ang_error_report b = Inr r5"
  using assms
  by (simp add: pos_report_def vel_report_def ang_report_def pos_error_report_def
      ang_error_report_def)

lemma debug_line_ok:
  assumes "3 \<le> length (position (body sim))" "3 \<le> length (velocity (body sim))"
    "2 \<le> length (pos_error (body sim))"
  shows "\<exists>l. debug_line sim = Inr l"
proof -
  from reports_ok [OF assms] obtain r1 r2 r3 r4 r5 where
    "pos_report (body sim) = Inr r1" "vel_report (body sim) = Inr r2"
    "ang_report (body sim) = Inr r3" "pos_error_report (body sim) = Inr r4"
    "ang_error_report (body sim) = Inr r5"
    by blast
  then show ?thesis by (simp add: debug_line_def)
qed

lemma append_data_ok:
  assumes "3 \<le> length (position (body sim))" "3 \<le> length (velocity (body sim))" "4 \<le> length acc"
  shows "\<exists>sim'. append_data sim acc = Inr sim' \<and> body sim' = body sim \<and>
     debug sim' = debug sim \<and> time_step sim' = time_step sim \<and>
     step_count sim' = step_count sim \<and> wind sim' = wind sim \<and>
     time sim' = time sim @ [time_step sim * of_int (step_count sim)] \<and>
     z_pos sim' = z_pos sim @ [position (body sim) ! 2]"
proof -
  from assms have g: "\<not> (length (position (body sim)) < 3 \<or> length (velocity (body sim)) < 3 \<or>
      length acc < 4)"
    by simp
  show ?thesis
    unfolding append_data_def Let_def by (simp add: g)
qed

lemma run_iter_ok:
  assumes wf: "3 \<le> length (position (body sim))" "3 \<le> length (velocity (body sim))"
    "3 \<le> length (drag (body sim))" "2 \<le> length (target (body sim))"
    "2 \<le> length (wind sim)" "2 \<le> length (xy_force (body sim))"
    "mass (body sim) \<noteq> 0" "radius (body sim) \<noteq> 0"
  shows "\<exists>acc sim' ints'. net_accel (body sim) sim = Inr acc \<and>
     run_iter (sim, ix, iy, ia) = Inr (sim', ints') \<and>
     length (position (body sim')) = length (position (body sim)) \<and>
     length (velocity (body sim')) = length (velocity (body sim)) \<and>
     drag (body sim') = drag (body sim) \<and> target (body sim') = target (body sim) \<and>
     mass (body sim') = mass (body sim) \<and> radius (body sim') = radius (body sim) \<and>
     controller (body sim') = controller (body sim) \<and>
     length (xy_force (body sim')) = 2 \<and>
     wind sim' = wind sim \<and> time_step sim' = time_step sim \<and> debug sim' = debug sim \<and>
     step_count sim' = step_count sim + 1 \<and>
     velocity (body sim') = (velocity (body sim))
       [0 := velocity (body sim) ! 0 + acc ! 0 * (1 / 100),
        1 := velocity (body sim) ! 1 + acc ! 1 * (1 / 100),
        2 := velocity (body sim) ! 2 + acc ! 2 * (1 / 100)] \<and>
     position (body sim') = (position (body sim))
       [0 := position (body sim) ! 0 + (velocity (body sim) ! 0 + acc ! 0 * (1 / 100)) * (1 / 100),
        1 := position (body sim) ! 1 + (velocity (body sim) ! 1 + acc ! 1 * (1 / 100)) * (1 / 100),
        2 := position (body sim) ! 2 + (velocity (body sim) ! 2 + acc ! 2 * (1 / 100)) * (1 / 100)] \<and>
     angle (body sim') = py_mod (angle (body sim) +
        (angle_vel (body sim) + acc ! 3 * (1 / 100)) * (1 / 100)) 360 \<and>
     pos_error (body sim') =
        map (\<lambda>(curr, tgt). curr - tgt) (zip (position (body sim')) (target (body sim))) \<and>
     ang_error (body sim') =
        (if 180 < angle (body sim') then angle (body sim') - 360 else angle (body sim')) \<and>
     time sim' = time sim @ [time_step sim * of_int (step_count sim + 1)] \<and>
     z_pos sim' = z_pos sim @ [position (body sim') ! 2]"
proof -
  let ?b = "body sim"
  let ?dt = "1 / 100 :: real"
  from net_accel_value [OF wf(3) wf(2) wf(5) wf(6) wf(7) wf(8)] obtain acc
    where na: "net_accel ?b sim = Inr acc" and la: "length acc = 4"
    by force
  define b1 where "b1 = ?b\<lparr>velocity := (velocity ?b)[0 := velocity ?b ! 0 + acc ! 0 * ?dt,
                                       1 := velocity ?b ! 1 + acc ! 1 * ?dt,
                                       2 := velocity ?b ! 2 + acc ! 2 * ?dt],
            position := (position ?b)[0 := position ?b ! 0 + (velocity ?b ! 0 + acc ! 0 * ?dt) * ?dt,
                                       1 := position ?b ! 1 + (velocity ?b ! 1 + acc ! 1 * ?dt) * ?dt,
                                       2 := position ?b ! 2 + (velocity ?b ! 2 + acc ! 2 * ?dt) * ?dt],
            angle_vel := angle_vel ?b + acc ! 3 * ?dt,
            angle := py_mod (angle ?b + (angle_vel ?b + acc ! 3 * ?dt) * ?dt) 360\<rparr>"
  have st: "step ?b acc step_default_time_step = Inr b1"
    unfolding b1_def step_default_time_step_def using wf(2) wf(1) la by (intro step_ok) simp_all
  have b1f: "length (position b1) = length (position ?b)" "length (velocity b1) = length (velocity ?b)"
    "drag b1 = drag ?b" "target b1 = target ?b" "mass b1 = mass ?b" "radius b1 = radius ?b"
    "controller b1 = controller ?b" "xy_force b1 = xy_force ?b"
    by (simp_all add: b1_def)
  define b2 where "b2 = update_ang_vel_error (update_angle_error (update_vel_error (update_pos_error b1)))"
  have b2: "b2 = b1\<lparr>pos_error := map (\<lambda>(curr, tgt). curr - tgt) (zip (position b1) (target b1)),
          vel_error := map (\<lambda>(vel, tgt). vel - tgt) (zip (velocity b1) (target_vel b1)),
          ang_error := (if 180 < angle b1 then angle b1 - 360 else angle b1),
          ang_vel_error := angle_vel b1 - target_angle_vel b1\<rparr>"
    unfolding b2_def by (rule update_errors_ok)
  define b3 where "b3 = correct_angle b2 ia"
  from correct_angle_ok [of b2 ia] obtain f where b3: "b3 = b2\<lparr>angle_force := f\<rparr>"
    unfolding b3_def by blast
  have pe: "2 \<le> length (pos_error b3)"
    using wf(1) wf(4) by (simp add: b3 b2 b1f)
  have ve3: "2 \<le> length (velocity b3)"
    using wf(2) by (simp add: b3 b2 b1f)
  from correct_xy_ok [OF pe ve3, of ix iy] obtain fx fy
    where cx: "correct_xy b3 ix iy = Inr (b3\<lparr>xy_force := [fx, fy]\<rparr>)"
    by blast
  define b4 where "b4 = b3\<lparr>xy_force := [fx, fy]\<rparr>"
  have b4f: "length (position b4) = length (position ?b)" "length (velocity b4) = length (velocity ?b)"
    "drag b4 = drag ?b" "target b4 = target ?b" "mass b4 = mass ?b" "radius b4 = radius ?b"
    "controller b4 = controller ?b" "length (xy_force b4) = 2"
    "2 \<le> length (pos_error b4)"
    using pe by (simp_all add: b4_def b3 b2 b1f)
  have b4v: "velocity b4 = velocity b1" "position b4 = position b1" "angle b4 = angle b1"
    "pos_error b4 = map (\<lambda>(curr, tgt). curr - tgt) (zip (position b1) (target ?b))"
    "ang_error b4 = (if 180 < angle b1 then angle b1 - 360 else angle b1)"
    by (simp_all add: b4_def b3 b2 b1f)
  from set_integrals_ok [OF b4f(9), of "(ix, iy, ia)"] obtain ints'
    where si: "set_integrals b4 (ix, iy, ia) = Inr ints'"
    by blast
  define sim1 where "sim1 = sim\<lparr>step_count := step_count sim + 1, body := b4\<rparr>"
  have s1: "3 \<le> length (position (body sim1))" "3 \<le> length (velocity (body sim1))"
    "4 \<le> length acc"
    using wf(1,2) la by (simp_all add: sim1_def b4f)
  from append_data_ok [OF s1] obtain sim'
    where ad: "append_data sim1 acc = Inr sim'" and sb: "body sim' = b4"
      and sf: "debug sim' = debug sim" "time_step sim' = time_step sim"
        "step_count sim' = step_count sim + 1" "wind sim' = wind sim"
        "time sim' = time sim @ [time_step sim * of_int (step_count sim + 1)]"
        "z_pos sim' = z_pos sim @ [position b4 ! 2]"
    by (auto simp: sim1_def)
  have dl: "\<exists>l. debug_line sim' = Inr l"
    using wf(1,2) by (intro debug_line_ok) (simp_all add: sb b4f)
  then obtain line where dl': "debug_line sim' = Inr line" ..
  have ri: "run_iter (sim, ix, iy, ia) = Inr (sim', ints')"
    using cx si ad dl'
    by (simp add: run_iter_def na st Let_def b3_def [symmetric] b2_def [symmetric]
        b4_def [symmetric] sim1_def [symmetric])
  have vals: "velocity b1 = (velocity ?b)[0 := velocity ?b ! 0 + acc ! 0 * ?dt,
                                       1 := velocity ?b ! 1 + acc ! 1 * ?dt,
                                       2 := velocity ?b ! 2 + acc ! 2 * ?dt]"
    "position b1 = (position ?b)[0 := position ?b ! 0 + (velocity ?b ! 0 + acc ! 0 * ?dt) * ?dt,
                                       1 := position ?b ! 1 + (velocity ?b ! 1 + acc ! 1 * ?dt) * ?dt,
                                       2 := position ?b ! 2 + (velocity ?b ! 2 + acc ! 2 * ?dt) * ?dt]"
    "angle b1 = py_mod (angle ?b + (angle_vel ?b + acc ! 3 * ?dt) * ?dt) 360"
    by (simp_all add: b1_def)
  show ?thesis
    apply (rule exI [of _ acc], rule exI [of _ sim'], rule exI [of _ ints'])
    apply (simp only: na ri sf sb b4f b4v)
    apply (simp only: vals [symmetric])
    apply (simp add: b1f)
    done
qed

text \<open>
  C5: an iteration of the loop in \<open>Simulator.run\<close> that completes leaves each of
  \<open>integral_x\<close>, \<open>integral_y\<close>, \<open>integral_ang\<close> increased by its error of this
  iteration when that error is below 1, and at 0 otherwise; this is the policy of the
  specification, whose trace over the errors 0.5, 2.0, 0.3 from 0 is 0.5, 0, 0.3.
\<close>

theorem integrals_policy:
  assumes "run_iter (sim, ix, iy, ia) = Inr (sim', ix', iy', ia')"
  shows "ix' = (if pos_error (body sim') ! 0 < 1 then ix + pos_error (body sim') ! 0 else 0) \<and>
     iy' = (if pos_error (body sim') ! 1 < 1 then iy + pos_error (body sim') ! 1 else 0) \<and>
     ia' = (if ang_error (body sim') < 1 then ia + ang_error (body sim') else 0) \<and>
     ix' = integral_policy ix (pos_error (body sim') ! 0) \<and>
     iy' = integral_policy iy (pos_error (body sim') ! 1) \<and>
     ia' = integral_policy ia (ang_error (body sim')) \<and>
     integral_trace 0 [5 / 10, 2, 3 / 10] = [5 / 10, 0, 3 / 10]"
proof -
  from run_iter_Inr [OF assms] obtain acc b2
    where si: "set_integrals b2 (ix, iy, ia) = Inr (ix', iy', ia')"
      and ad: "append_data (sim\<lparr>step_count := step_count sim + 1, body := b2\<rparr>) acc = Inr sim'"
    by blast
  from append_data_body [OF ad] have b: "body sim' = b2" by simp
  have tr: "integral_trace 0 [5 / 10, 2, 3 / 10] = [5 / 10, 0, 3 / 10]"
    by (simp add: integral_policy_def)
  from set_integrals_Inr [OF si] b tr show ?thesis
    by (simp add: integral_policy_def)
qed

theorem integrals_policy_witness:
  "\<exists>sim'. run_iter (Simulator_init
       (Body_init 1 (5 / 100) [1 / 2, 2, 122] [0, 0, 0] 0 0 [0, 0, 0] [0, 0] [0, 0] 0)
       [0, 0] (1 / 100) False, 10, 10, 10) = Inr (sim', 21 / 2, 0, 10)"
proof -
  let ?sim = "Simulator_init
       (Body_init 1 (5 / 100) [1 / 2, 2, 122] [0, 0, 0] 0 0 [0, 0, 0] [0, 0] [0, 0] 0)
       [0, 0] (1 / 100) False"
  have wf: "3 \<le> length (position (body ?sim))" "3 \<le> length (velocity (body ?sim))"
    "3 \<le> length (drag (body ?sim))" "2 \<le> length (target (body ?sim))"
    "2 \<le> length (wind ?sim)" "2 \<le> length (xy_force (body ?sim))"
    "mass (body ?sim) \<noteq> 0" "radius (body ?sim) \<noteq> 0"
    by (simp_all add: Simulator_init_def Body_init_def)
  have na: "net_accel (body ?sim) ?sim = Inr [0, 0, - (981 / 100), 0]"
    unfolding net_accel_value [OF wf(3,2,5,6,7,8)]
    by (simp add: Simulator_init_def Body_init_def)
  from run_iter_ok [OF wf, of 10 10 10] na obtain sim' ints' where
    ri: "run_iter (?sim, 10, 10, 10) = Inr (sim', ints')"
    and pp: "position (body sim') = (position (body ?sim))
       [0 := position (body ?sim) ! 0 + (velocity (body ?sim) ! 0 + [0, 0, - (981 / 100), 0] ! 0 * (1 / 100)) * (1 / 100),
        1 := position (body ?sim) ! 1 + (velocity (body ?sim) ! 1 + [0, 0, - (981 / 100), 0] ! 1 * (1 / 100)) * (1 / 100),
        2 := position (body ?sim) ! 2 + (velocity (body ?sim) ! 2 + [0, 0, - (981 / 100), 0] ! 2 * (1 / 100)) * (1 / 100)]"
    and an: "angle (body sim') = py_mod (angle (body ?sim) +
        (angle_vel (body ?sim) + [0, 0, - (981 / 100), 0] ! 3 * (1 / 100)) * (1 / 100)) 360"
    and pe: "pos_error (body sim') =
        map (\<lambda>(curr, tgt). curr - tgt) (zip (position (body sim')) (target (body ?sim)))"
    and ae: "ang_error (body sim') =
        (if 180 < angle (body sim') then angle (body sim') - 360 else angle (body sim'))"
    by auto
  obtain ix' iy' ia' where ints: "ints' = (ix', iy', ia')" by (cases ints') auto
  have an0: "angle (body sim') = 0"
    unfolding an by (simp add: Simulator_init_def Body_init_def py_mod_def)
  have pe0: "pos_error (body sim') = [1 / 2, 2]"
    unfolding pe pp by (simp add: Simulator_init_def Body_init_def)
  have ae0: "ang_error (body sim') = 0"
    unfolding ae an0 by simp
  from integrals_policy [OF ri [unfolded ints]]
  have "ix' = 21 / 2" "iy' = 0" "ia' = 10"
    by (simp_all add: pe0 ae0)
  with ri ints show ?thesis by auto
qed

text \<open>
  C1: \<open>Simulator.run\<close> calls \<open>Body.step\<close> without a time step, so the body is
  integrated with the default 0.01 of \<open>Body.step\<close> and not with the simulator's
  \<open>time_step\<close>. For a simulator built with \<open>time_step = 0.5\<close> around \<open>Body()\<close>, the
  first iteration records the time 0.5 while the body has fallen for 0.01: its vertical
  velocity is \<open>-9.81 * 0.01\<close> and its altitude \<open>122 - 9.81 * 0.01 * 0.01\<close>.
\<close>

theorem run_step_uses_default_time_step:
  "\<exists>sim' ints'. run_iter (Simulator_init Body_default [0, 0] (1 / 2) False, 0, 0, 0) =
       Inr (sim', ints') \<and>
     time_step sim' = 1 / 2 \<and> time sim' = [1 / 2] \<and>
     velocity (body sim') = [0, 0, - (981 / 100) * (1 / 100)] \<and>
     position (body sim') = [0, 0, 122 - (981 / 100) * (1 / 100) * (1 / 100)]"
proof -
  let ?sim = "Simulator_init Body_default [0, 0] (1 / 2) False"
  have wf: "3 \<le> length (position (body ?sim))" "3 \<le> length (velocity (body ?sim))"
    "3 \<le> length (drag (body ?sim))" "2 \<le> length (target (body ?sim))"
    "2 \<le> length (wind ?sim)" "2 \<le> length (xy_force (body ?sim))"
    "mass (body ?sim) \<noteq> 0" "radius (body ?sim) \<noteq> 0"
    by (simp_all add: Simulator_init_def Body_default_def Body_init_def)
  have na: "net_accel (body ?sim) ?sim = Inr [0, 0, - (981 / 100), 0]"
    unfolding net_accel_value [OF wf(3,2,5,6,7,8)]
    by (simp add: Simulator_init_def Body_default_def Body_init_def)
  from run_iter_ok [OF wf, of 0 0 0] na obtain sim' ints' where
    ri: "run_iter (?sim, 0, 0, 0) = Inr (sim', ints')"
    and "time_step sim' = time_step ?sim"
    and "time sim' = time ?sim @ [time_step ?sim * of_int (step_count ?sim + 1)]"
    and "velocity (body sim') = (velocity (body ?sim))
       [0 := velocity (body ?sim) ! 0 + [0, 0, - (981 / 100), 0] ! 0 * (1 / 100),
        1 := velocity (body ?sim) ! 1 + [0, 0, - (981 / 100), 0] ! 1 * (1 / 100),
        2 := velocity (body ?sim) ! 2 + [0, 0, - (981 / 100), 0] ! 2 * (1 / 100)]"
    and "position (body sim') = (position (body ?sim))
       [0 := position (body ?sim) ! 0 + (velocity (body ?sim) ! 0 + [0, 0, - (981 / 100), 0] ! 0 * (1 / 100)) * (1 / 100),
        1 := position (body ?sim) ! 1 + (velocity (body ?sim) ! 1 + [0, 0, - (981 / 100), 0] ! 1 * (1 / 100)) * (1 / 100),
        2 := position (body ?sim) ! 2 + (velocity (body ?sim) ! 2 + [0, 0, - (981 / 100), 0] ! 2 * (1 / 100)) * (1 / 100)]"
    by auto
  then show ?thesis
    by (intro exI [of _ sim'] exI [of _ ints'])
       (simp add: Simulator_init_def Body_default_def Body_init_def)
qed

subsection \<open>Termination under gravity\<close>

lemma fall_positive:
  assumes "n < 499"
  shows "0 < 122 - 981 / 1000000 * (real n * (real n + 1) / 2)"
proof -
  from assms have n: "real n \<le> 498" by simp
  have "real n * (real n + 1) \<le> 498 * (498 + 1)"
    by (intro mult_mono) (use n in simp_all)
  then show ?thesis by simp
qed

lemma run_loop_falls:
  assumes "n \<le> 499"
    and "3 \<le> length (position (body sim))" "3 \<le> length (velocity (body sim))"
    "3 \<le> length (drag (body sim))" "2 \<le> length (target (body sim))"
    "2 \<le> length (wind sim)" "2 \<le> length (xy_force (body sim))"
    "mass (body sim) \<noteq> 0" "radius (body sim) \<noteq> 0"
    and "drag (body sim) ! 2 = 0"
    and "velocity (body sim) ! 2 = - (981 / 10000) * real n"
    and "position (body sim) ! 2 = 122 - 981 / 1000000 * (real n * (real n + 1) / 2)"
    and "step_count sim = int n" and "length (time sim) = n"
  shows "\<exists>sim' ints'. run_loop (sim, ix, iy, ia) = Some (Inr (sim', ints')) \<and>
     step_count sim' = 499 \<and> length (time sim') = 499 \<and>
     position (body sim') ! 2 = 122 - 981 / 1000000 * 124750 \<and>
     time_step sim' = time_step sim"
  using assms
proof (induction "499 - n" arbitrary: n sim ix iy ia)
  case 0
  then have n: "n = 499" by simp
  from 0 have len: "\<not> length (position (body sim)) < 3" by simp
  from 0 n have z: "position (body sim) ! 2 = 122 - 981 / 1000000 * 124750" by simp
  then have nz: "\<not> position (body sim) ! 2 > 0" by simp
  have "run_loop (sim, ix, iy, ia) = Some (Inr (sim, ix, iy, ia))"
    by (subst run_loop.simps) (simp add: len nz)
  with 0 n z show ?case by simp
next
  case (Suc k)
  then have n: "n < 499" and k: "k = 499 - Suc n" by simp_all
  from Suc.prems have len: "\<not> length (position (body sim)) < 3" by simp
  from fall_positive [OF n] Suc.prems have z: "position (body sim) ! 2 > 0" by simp
  from run_iter_ok [OF Suc.prems(2-9), of ix iy ia] obtain acc sim' ints' where
    na: "net_accel (body sim) sim = Inr acc"
    and ri: "run_iter (sim, ix, iy, ia) = Inr (sim', ints')"
    and f: "length (position (body sim')) = length (position (body sim))"
     "length (velocity (body sim')) = length (velocity (body sim))"
     "drag (body sim') = drag (body sim)" "target (body sim') = target (body sim)"
     "mass (body sim') = mass (body sim)" "radius (body sim') = radius (body sim)"
     "length (xy_force (body sim')) = 2"
     "wind sim' = wind sim" "time_step sim' = time_step sim"
     "step_count sim' = step_count sim + 1"
     "time sim' = time sim @ [time_step sim * of_int (step_count sim + 1)]"
    and vv: "velocity (body sim') = (velocity (body sim))
       [0 := velocity (body sim) ! 0 + acc ! 0 * (1 / 100),
        1 := velocity (body sim) ! 1 + acc ! 1 * (1 / 100),
        2 := velocity (body sim) ! 2 + acc ! 2 * (1 / 100)]"
    and pp: "position (body sim') = (position (body sim))
       [0 := position (body sim) ! 0 + (velocity (body sim) ! 0 + acc ! 0 * (1 / 100)) * (1 / 100),
        1 := position (body sim) ! 1 + (velocity (body sim) ! 1 + acc ! 1 * (1 / 100)) * (1 / 100),
        2 := position (body sim) ! 2 + (velocity (body sim) ! 2 + acc ! 2 * (1 / 100)) * (1 / 100)]"
    by blast
  from na net_accel_value [OF Suc.prems(4,3,6,7,8,9)] Suc.prems(8,10)
  have az: "acc ! 2 = - (981 / 100)"
    by auto
  from Suc.prems(2,3) have l2: "2 < length (velocity (body sim))" "2 < length (position (body sim))"
    by auto
  obtain ix' iy' ia' where ints: "ints' = (ix', iy', ia')" by (cases ints') auto
  have v: "velocity (body sim') ! 2 = - (981 / 10000) * real (Suc n)"
    using l2 Suc.prems(11) by (simp add: vv az field_simps)
  have p: "position (body sim') ! 2 =
      122 - 981 / 1000000 * (real (Suc n) * (real (Suc n) + 1) / 2)"
    using l2 Suc.prems(11,12) by (simp add: pp az field_simps)
  have "\<exists>sim'' ints''. run_loop (sim', ix', iy', ia') = Some (Inr (sim'', ints'')) \<and>
     step_count sim'' = 499 \<and> length (time sim'') = 499 \<and>
     position (body sim'') ! 2 = 122 - 981 / 1000000 * 124750 \<and>
     time_step sim'' = time_step sim'"
  proof (rule Suc.hyps(1) [OF k])
    show "Suc n \<le> 499" using n by simp
    show "3 \<le> length (position (body sim'))" "3 \<le> length (velocity (body sim'))"
      "3 \<le> length (drag (body sim'))" "2 \<le> length (target (body sim'))"
      "2 \<le> length (wind sim')" "2 \<le> length (xy_force (body sim'))"
      "mass (body sim') \<noteq> 0" "radius (body sim') \<noteq> 0"
      "drag (body sim') ! 2 = 0"
      using Suc.prems f by simp_all
    show "velocity (body sim') ! 2 = - (981 / 10000) * real (Suc n)" by (rule v)
    show "position (body sim') ! 2 =
      122 - 981 / 1000000 * (real (Suc n) * (real (Suc n) + 1) / 2)" by (rule p)
    show "step_count sim' = int (Suc n)" using f(10) Suc.prems(13) by simp
    show "length (time sim') = Suc n" using f(11) Suc.prems(14) by simp
  qed
  moreover have "run_loop (sim, ix, iy, ia) = run_loop (sim', ix', iy', ia')"
    by (subst run_loop.simps) (simp add: len z ri ints)
  ultimately show ?case using f(9) by auto
qed

lemma fall_time_ceiling: "\<lceil>sqrt (2 * 122 / (981 / 100)) / (1 / 10)\<rceil> = 50"
proof -
  let ?t = "sqrt (2 * 122 / (981 / 100))"
  have lo: "498 / 100 < ?t"
    by (rule real_less_rsqrt) (simp add: power2_eq_square)
  have hi: "?t < 499 / 100"
    by (rule real_less_lsqrt) (simp_all add: power2_eq_square)
  have "49 < ?t / (1 / 10)" "?t / (1 / 10) \<le> 50"
    using lo hi by simp_all
  then show ?thesis by (simp add: ceiling_eq_iff)
qed

text \<open>
  C7: a body of non-zero mass and radius that starts at altitude 122 with zero
  velocity, zero applied forces and no drag, in a simulator without wind, lands: \<open>run\<close>
  returns after exactly 499 iterations, with 499 recorded samples and a final altitude
  that is not positive. The count is the same for every \<open>time_step\<close>, since the
  integration uses 0.01 throughout; for \<open>time_step = 0.1\<close> the figure
  \<open>ceil(sqrt(2 * 122 / 9.81) / time_step)\<close> is 50.
\<close>

theorem run_gravity_only_ticks:
  assumes "m \<noteq> 0" "r \<noteq> 0"
  shows "\<exists>sim'. run (Simulator_init
        (Body_init m r [x, y, 122] [0, 0, 0] a av [0, 0, 0] [tx, ty] [0, 0] 0)
        [0, 0] dt dbg) = Some (Inr sim') \<and>
     step_count sim' = 499 \<and> length (time sim') = 499 \<and>
     position (body sim') ! 2 \<le> 0 \<and> time_step sim' = dt"
proof -
  let ?sim = "Simulator_init
        (Body_init m r [x, y, 122] [0, 0, 0] a av [0, 0, 0] [tx, ty] [0, 0] 0)
        [0, 0] dt dbg"
  have "\<exists>sim' ints'. run_loop (?sim, 0, 0, 0) = Some (Inr (sim', ints')) \<and>
     step_count sim' = 499 \<and> length (time sim') = 499 \<and>
     position (body sim') ! 2 = 122 - 981 / 1000000 * 124750 \<and>
     time_step sim' = time_step ?sim"
    by (rule run_loop_falls [where n = 0])
       (use assms in \<open>simp_all add: Simulator_init_def Body_init_def\<close>)
  then obtain sim' ints' where "run_loop (?sim, 0, 0, 0) = Some (Inr (sim', ints'))"
    and "step_count sim' = 499" "length (time sim') = 499"
    and "position (body sim') ! 2 = 122 - 981 / 1000000 * 124750"
    and "time_step sim' = time_step ?sim"
    by blast
  then show ?thesis
    by (intro exI [of _ sim']) (simp add: run_def Simulator_init_def)
qed

theorem run_gravity_only_ticks_witness:
  "\<exists>sim'. run (Simulator_init Body_default [0, 0] (1 / 10) False) = Some (Inr sim') \<and>
     step_count sim' = 499 \<and> position (body sim') ! 2 \<le> 0 \<and> time_step sim' = 1 / 10 \<and>
     \<lceil>sqrt (2 * 122 / (981 / 100)) / time_step sim'\<rceil> = 50"
proof -
  have h: "(1::real) \<noteq> 0" "(5 / 100 :: real) \<noteq> 0" by simp_all
  from run_gravity_only_ticks [OF h, of 0 0 0 0 0 0 "1 / 10" False]
  obtain sim' where r: "run (Simulator_init Body_default [0, 0] (1 / 10) False) = Some (Inr sim')"
    and s: "step_count sim' = 499" "position (body sim') ! 2 \<le> 0"
    and t: "time_step sim' = 1 / 10"
    unfolding Body_default_def by blast
  have "\<lceil>sqrt (2 * 122 / (981 / 100)) / time_step sim'\<rceil> = 50"
    unfolding t by (rule fall_time_ceiling)
  with r s t show ?thesis by blast
qed

subsection \<open>Determinism\<close>









subsection \<open>Status reports\<close>

text \<open>
  C9: of the seven report helpers, \<open>ang_vel_report\<close> raises \<open>AttributeError\<close> and
  \<open>vel_error_report\<close> raises \<open>TypeError\<close> on every body; a helper that formats
  numbers, such as \<open>pos_report\<close>, returns two decimals per field, as in
  \<open>pos(12.34, -5.67, 88.90)\<close>.
\<close>

theorem reports_raise:
  "ang_vel_report b = Inl AttributeError \<and> vel_error_report b = Inl TypeError \<and>
   pos_report (Body_default\<lparr>position := [1234 / 100, - 567 / 100, 889 / 10]\<rparr>) =
     Inr ''pos(12.34, -5.67, 88.90)''"
  by (simp add: ang_vel_report_def vel_error_report_def pos_report_def Body_default_def
      Body_init_def fixed_def round_half_even_def Let_def)

subsection \<open>Constructors\<close>

text \<open>
  C10: whatever parameters \<open>Body\<close> is constructed with, its controller has the gains
  15, 0.15, 5 (position loop) and 2, 0.001, 0.2 (heading loop) and the limits 50 and
  10; constructing a \<open>Simulator\<close> around the body leaves them as they are.
\<close>

theorem controller_constants_fixed:
  "controller (Body_init m r pos vel a av dr tg xf af) =
     \<lparr>force_lim = 50, angle_force_lim = 10, pid_p = 15, pid_i = 15 / 100, pid_d = 5,
      ang_p = 2, ang_i = 1 / 1000, ang_d = 2 / 10\<rparr>
   \<and> controller (body (Simulator_init (Body_init m r pos vel a av dr tg xf af) w dt dbg)) =
     \<lparr>force_lim = 50, angle_force_lim = 10, pid_p = 15, pid_i = 15 / 100, pid_d = 5,
      ang_p = 2, ang_i = 1 / 1000, ang_d = 2 / 10\<rparr>"
  by (simp add: Body_init_def Simulator_init_def Controller_init_def)


end
